theory Spec2Isabelle
  imports Complex_Main
begin

section \<open>JavaScript numbers\<close>

text \<open>
  The engine of \<^verbatim>\<open>backend/anomalyDetection.js\<close> computes on JavaScript numbers. They are
  modelled as exact reals: the rounding error, overflow and underflow of IEEE doubles are
  not modelled, and zero carries no sign. Readings and anomalies carry finite numbers
  (the transport layer parses them and the specification makes it responsible for
  rejecting malformed numeric fields). The only operations of the engine that can leave
  the finite numbers are the three quotients whose divisor may be zero (a previous
  consumption, the first value of a drift window, an hourly mean); they are computed in
  the type \<open>jsnum\<close>, which adds \<open>Infinity\<close>, \<open>-Infinity\<close> and \<open>NaN\<close> with the
  arithmetic and the comparisons JavaScript gives them.
\<close>

datatype jsnum = Fin real | PInf | NInf | NaN

fun js_mul :: "jsnum \<Rightarrow> jsnum \<Rightarrow> jsnum" where
  "js_mul NaN y = NaN"
| "js_mul x NaN = NaN"
| "js_mul (Fin a) (Fin b) = Fin (a * b)"
| "js_mul (Fin a) PInf = (if 0 < a then PInf else if a < 0 then NInf else NaN)"
| "js_mul (Fin a) NInf = (if 0 < a then NInf else if a < 0 then PInf else NaN)"
| "js_mul PInf (Fin b) = (if 0 < b then PInf else if b < 0 then NInf else NaN)"
| "js_mul NInf (Fin b) = (if 0 < b then NInf else if b < 0 then PInf else NaN)"
| "js_mul PInf PInf = PInf"
| "js_mul PInf NInf = NInf"
| "js_mul NInf PInf = NInf"
| "js_mul NInf NInf = PInf"

fun js_div :: "jsnum \<Rightarrow> jsnum \<Rightarrow> jsnum" where
  "js_div NaN y = NaN"
| "js_div x NaN = NaN"
| "js_div (Fin a) (Fin b) =
     (if b = 0 then (if 0 < a then PInf else if a < 0 then NInf else NaN)
      else Fin (a / b))"
| "js_div (Fin a) PInf = Fin 0"
| "js_div (Fin a) NInf = Fin 0"
| "js_div PInf (Fin b) = (if 0 \<le> b then PInf else NInf)"
| "js_div NInf (Fin b) = (if 0 \<le> b then NInf else PInf)"
| "js_div PInf PInf = NaN"
| "js_div PInf NInf = NaN"
| "js_div NInf PInf = NaN"
| "js_div NInf NInf = NaN"

text \<open>The comparison \<^verbatim>\<open>x > y\<close>: false whenever an operand is \<open>NaN\<close>.\<close>

fun js_gt :: "jsnum \<Rightarrow> jsnum \<Rightarrow> bool" where
  "js_gt NaN y = False"
| "js_gt x NaN = False"
| "js_gt (Fin a) (Fin b) = (b < a)"
| "js_gt (Fin a) PInf = False"
| "js_gt (Fin a) NInf = True"
| "js_gt PInf (Fin b) = True"
| "js_gt PInf PInf = False"
| "js_gt PInf NInf = True"
| "js_gt NInf y = False"

text \<open>
  \<^verbatim>\<open>Math.round\<close> rounds to the nearest integer, a tie towards \<open>+Infinity\<close>; on the
  finite numbers it is \<open>\<lfloor>x + 1/2\<rfloor>\<close>.
\<close>

definition Math_round :: "real \<Rightarrow> real" where
  "Math_round x = of_int \<lfloor>x + 1 / 2\<rfloor>"

fun js_round :: "jsnum \<Rightarrow> jsnum" where
  "js_round (Fin a) = Fin (Math_round a)"
| "js_round PInf = PInf"
| "js_round NInf = NInf"
| "js_round NaN = NaN"

text \<open>
  \<^verbatim>\<open>Math.min(...values)\<close> and \<^verbatim>\<open>Math.max(...values)\<close>: with no argument they are
  \<open>Infinity\<close> and \<open>-Infinity\<close>.
\<close>

fun Math_min :: "real list \<Rightarrow> jsnum" where
  "Math_min [] = PInf"
| "Math_min (v # vs) = Fin (foldl min v vs)"

fun Math_max :: "real list \<Rightarrow> jsnum" where
  "Math_max [] = NInf"
| "Math_max (v # vs) = Fin (foldl max v vs)"

text \<open>\<^verbatim>\<open>xs.slice(a, b)\<close> for \<open>0 \<le> a \<le> b\<close>; the end is clipped at the length.\<close>

definition js_slice :: "'a list \<Rightarrow> nat \<Rightarrow> nat \<Rightarrow> 'a list" where
  "js_slice xs a b = take (b - a) (drop a xs)"

section \<open>The data model\<close>

text \<open>
  The day type of a reading is \<^verbatim>\<open>'weekday'\<close> or \<^verbatim>\<open>'weekend'\<close>: the two values of
  the specification's enumeration, and the two that \<^verbatim>\<open>getDayType\<close> of the server
  returns. A reading with any other string is outside the model.
\<close>

datatype dayType = Weekday | Weekend

text \<open>
  A timestamp is a valid instant, in milliseconds since the epoch (a string that
  \<^verbatim>\<open>new Date\<close> cannot parse is outside the model). The fields of a reading are those
  the server stores (\<^verbatim>\<open>backend/server.js\<close>).
\<close>

record reading =
  timestamp :: int
  consumption :: real
  temperature :: real
  occupancy :: int
  dayType :: dayType

record stats =
  mean :: real
  stdDev :: real
  min_v :: jsnum
  max_v :: jsnum

record hourEntry =
  values_v :: "real list"
  mean :: real
  stdDev :: real
  count :: nat

datatype anomalyType = Spike | Drift | Schedule

record anomaly =
  type :: anomalyType
  timestamp :: int
  consumption :: real
  expected :: real
  percentageIncrease :: jsnum
  severity :: int
  description :: string

record recommendation =
  id_v :: string
  title :: string
  description :: string
  action :: string
  impact :: string
  urgency :: string
  anomalyType :: anomalyType

record savings =
  energy :: real
  cost :: real
  carbon :: real

text \<open>The building descriptor the server passes as \<^verbatim>\<open>buildingData\<close>.\<close>

record building =
  id_v :: string
  name :: string
  location :: string
  area :: real
  energyData :: "reading list"
  anomalies :: "anomaly list"
  lastUpdated :: string

text \<open>
  What the engine takes from its host: the local time zone (the offset of local time
  from UTC, in milliseconds, at an instant), the locale's date format
  (\<^verbatim>\<open>toLocaleDateString\<close>), the conversion of a number to a string in a template
  literal, and the clock (\<open>dateNow env k\<close> is what the \<open>k\<close>-th call of
  \<^verbatim>\<open>Date.now()\<close> returns, counting from 0).
\<close>

record env =
  tzOffset :: "int \<Rightarrow> int"
  toLocaleDateString :: "int \<Rightarrow> string"
  numToString :: "jsnum \<Rightarrow> string"
  dateNow :: "nat \<Rightarrow> int"

text \<open>\<^verbatim>\<open>new Date(timestamp).getHours()\<close>: the hour of the day in local time.\<close>

definition getHours :: "env \<Rightarrow> int \<Rightarrow> nat" where
  "getHours env t = nat (((t + tzOffset env t) div 3600000) mod 24)"

section \<open>calculateStats and createHourlyProfile\<close>

definition calculateStats :: "real list \<Rightarrow> stats" where
  "calculateStats vals =
     (let count = length vals in
      if count = 0 then \<lparr>stats.mean = 0, stats.stdDev = 0, min_v = Fin 0, max_v = Fin 0\<rparr>
      else
        let sum = foldl (\<lambda>acc val. acc + val) 0 vals;
            mean = sum / real count;
            squaredDiffs = map (\<lambda>val. (val - mean) ^ 2) vals;
            variance = foldl (\<lambda>acc val. acc + val) 0 squaredDiffs / real count;
            stdDev = sqrt variance
        in \<lparr>stats.mean = mean, stats.stdDev = stdDev,
            min_v = Math_min vals, max_v = Math_max vals\<rparr>)"

text \<open>
  The hourly profile is an object with the keys 0 to 23: a list of 24 entries, the
  entry of hour \<open>h\<close> at index \<open>h\<close>. The three loops of the source are the three
  stages below.
\<close>

definition createHourlyProfile :: "env \<Rightarrow> reading list \<Rightarrow> hourEntry list" where
  "createHourlyProfile env data =
     (let hourlyData0 =
            map (\<lambda>hour. \<lparr>values_v = [], hourEntry.mean = 0, hourEntry.stdDev = 0, count = 0\<rparr>)
              [0..<24];
          hourlyData1 =
            foldl (\<lambda>hourlyData entry.
                let hour = getHours env (reading.timestamp entry) in
                hourlyData[hour := (hourlyData ! hour)
                  \<lparr>values_v := values_v (hourlyData ! hour) @ [reading.consumption entry]\<rparr>])
              hourlyData0 data
      in map (\<lambda>e.
            let st = calculateStats (values_v e) in
            e\<lparr>hourEntry.mean := stats.mean st, hourEntry.stdDev := stats.stdDev st,
              count := length (values_v e)\<rparr>)
          hourlyData1)"

text \<open>\<^verbatim>\<open>profile[hour]\<close>: \<open>undefined\<close> for a key the object does not have.\<close>

definition lookup :: "hourEntry list \<Rightarrow> nat \<Rightarrow> hourEntry option" where
  "lookup profile hour = (if hour < length profile then Some (profile ! hour) else None)"

section \<open>detectAnomalies\<close>

text \<open>
  The expression \<^verbatim>\<open>((v - base) / base) * 100\<close> of the three passes. The divisor may be
  zero, so the quotient is a \<open>jsnum\<close>.
\<close>

definition pctIncrease :: "real \<Rightarrow> real \<Rightarrow> jsnum" where
  "pctIncrease v base = js_mul (js_div (Fin (v - base)) (Fin base)) (Fin 100)"

text \<open>The body of the spike loop at index \<open>i\<close>, for \<open>1 \<le> i < length data\<close>.\<close>

definition spikeStep ::
  "env \<Rightarrow> stats \<Rightarrow> stats \<Rightarrow> reading list \<Rightarrow> anomaly list \<Rightarrow> nat \<Rightarrow> anomaly list" where
  "spikeStep env weekdayStats weekendStats data anoms i =
     (let current = data ! i;
          previous = data ! (i - 1);
          st = (if reading.dayType current = Weekday then weekdayStats else weekendStats);
          pct = pctIncrease (reading.consumption current) (reading.consumption previous)
      in if js_gt pct (Fin 30) \<and>
            reading.consumption current > stats.mean st + 2 * stats.stdDev st
         then anoms @
           [\<lparr>type = Spike,
             timestamp = reading.timestamp current,
             consumption = reading.consumption current,
             expected = reading.consumption previous,
             percentageIncrease = js_div (js_round (js_mul pct (Fin 10))) (Fin 10),
             severity = (if js_gt pct (Fin 50) then 3 else 2),
             description =
               ''Sudden energy spike of '' @ numToString env (js_round pct) @ ''% detected''\<rparr>]
         else anoms)"

text \<open>
  The inner loop of the drift pass, from index \<open>j\<close>: it leaves with \<open>false\<close> at the
  first pair that does not increase.
\<close>

function isIncreasingLoop :: "reading list \<Rightarrow> nat \<Rightarrow> bool" where
  "isIncreasingLoop window j =
     (if j < length window
      then (if reading.consumption (window ! j) \<le> reading.consumption (window ! (j - 1))
            then False
            else isIncreasingLoop window (Suc j))
      else True)"
  by pat_completeness auto
termination
  by (relation "measure (\<lambda>(window, j). length window - j)") auto

declare isIncreasingLoop.simps [simp del]

definition windowSize :: nat where
  "windowSize = 5"

text \<open>The body of the drift loop at index \<open>i\<close>, for \<open>windowSize \<le> i < length data\<close>.\<close>

definition driftStep ::
  "env \<Rightarrow> stats \<Rightarrow> stats \<Rightarrow> reading list \<Rightarrow> anomaly list \<Rightarrow> nat \<Rightarrow> anomaly list" where
  "driftStep env weekdayStats weekendStats data anoms i =
     (let window = js_slice data (i - windowSize) (i + 1);
          st = (if reading.dayType (data ! i) = Weekday then weekdayStats else weekendStats);
          isIncreasing = isIncreasingLoop window 1
      in if isIncreasing \<and>
            reading.consumption (window ! windowSize) > stats.mean st + 1.5 * stats.stdDev st
         then
           let startVal = reading.consumption (window ! 0);
               endVal = reading.consumption (window ! windowSize);
               pct = pctIncrease endVal startVal;
               avgDailyIncrease = js_div pct (Fin (real windowSize))
           in if js_gt avgDailyIncrease (Fin 3)
              then anoms @
                [\<lparr>type = Drift,
                  timestamp = reading.timestamp (window ! windowSize),
                  consumption = endVal,
                  expected = startVal,
                  percentageIncrease = js_div (js_round (js_mul pct (Fin 10))) (Fin 10),
                  severity = (if js_gt avgDailyIncrease (Fin 5) then 2 else 1),
                  description =
                    ''Gradual efficiency loss of '' @ numToString env (js_round pct) @
                    ''% over '' @ numToString env (Fin (real windowSize)) @ '' days''\<rparr>]
              else anoms
         else anoms)"

text \<open>
  The body of the schedule loop at index \<open>i\<close>, for \<open>i < length data\<close>.
  \<^verbatim>\<open>Object.values(profile)\<close> lists the entries by ascending hour, which is the list itself.
\<close>

definition scheduleStep ::
  "env \<Rightarrow> hourEntry list \<Rightarrow> hourEntry list \<Rightarrow> reading list \<Rightarrow> anomaly list \<Rightarrow> nat
     \<Rightarrow> anomaly list" where
  "scheduleStep env weekdayHourlyProfile weekendHourlyProfile data anoms i =
     (let entry = data ! i;
          hour = getHours env (reading.timestamp entry);
          profile = (if reading.dayType entry = Weekday then weekdayHourlyProfile
                     else weekendHourlyProfile)
      in case lookup profile hour of
           None \<Rightarrow> anoms
         | Some ph \<Rightarrow>
             if count ph < 3 then anoms
             else
               let expd = hourEntry.mean ph;
                   deviation = hourEntry.stdDev ph
               in if reading.consumption entry > expd + 2.5 * deviation
                  then
                    let allHoursAvg =
                          foldl (\<lambda>sum h. sum + hourEntry.mean h) 0 profile / 24
                    in if expd < 0.7 * allHoursAvg
                       then
                         let pct = pctIncrease (reading.consumption entry) expd
                         in anoms @
                           [\<lparr>type = Schedule,
                             timestamp = reading.timestamp entry,
                             consumption = reading.consumption entry,
                             expected = expd,
                             percentageIncrease =
                               js_div (js_round (js_mul pct (Fin 10))) (Fin 10),
                             severity = (if js_gt pct (Fin 70) then 2 else 1),
                             description =
                               ''Abnormal energy use during off-hours ('' @
                               numToString env (Fin (real hour)) @ '':00)''\<rparr>]
                       else anoms
                  else anoms)"

text \<open>
  The detector. Its argument is \<open>None\<close> for a \<^verbatim>\<open>data\<close> that is \<^verbatim>\<open>null\<close> or
  \<^verbatim>\<open>undefined\<close>. The three loops run one after the other on the same array of
  anomalies.
\<close>

definition detectAnomalies :: "env \<Rightarrow> reading list option \<Rightarrow> anomaly list" where
  "detectAnomalies env data_opt =
     (case data_opt of
        None \<Rightarrow> []
      | Some data \<Rightarrow>
          if length data < 7 then []
          else
            let weekdayData = filter (\<lambda>entry. reading.dayType entry = Weekday) data;
                weekendData = filter (\<lambda>entry. reading.dayType entry = Weekend) data;
                weekdayStats = calculateStats (map reading.consumption weekdayData);
                weekendStats = calculateStats (map reading.consumption weekendData);
                anoms1 = foldl (spikeStep env weekdayStats weekendStats data) []
                           [1..<length data];
                anoms2 = foldl (driftStep env weekdayStats weekendStats data) anoms1
                           [windowSize..<length data];
                weekdayHourlyProfile = createHourlyProfile env weekdayData;
                weekendHourlyProfile = createHourlyProfile env weekendData
            in foldl (scheduleStep env weekdayHourlyProfile weekendHourlyProfile data) anoms2
                 [0..<length data])"

section \<open>generateRecommendations\<close>

text \<open>
  \<^verbatim>\<open>hourGroups\<close> is an object keyed by the hour: a map from the hour to the anomalies
  pushed under it, in the order of the pushes.
\<close>

definition groupStep :: "env \<Rightarrow> (nat \<rightharpoonup> anomaly list) \<Rightarrow> anomaly \<Rightarrow> (nat \<rightharpoonup> anomaly list)" where
  "groupStep env hourGroups a =
     (let hour = getHours env (anomaly.timestamp a)
      in hourGroups(hour \<mapsto> (case hourGroups hour of None \<Rightarrow> [] | Some g \<Rightarrow> g) @ [a]))"

text \<open>
  \<^verbatim>\<open>Object.entries\<close> lists the keys that are array indices first, in ascending numeric
  order, whatever the order in which they were created. The keys of \<open>hourGroups\<close> are
  hours, so all of them are below 24.
\<close>

definition Object_entries :: "(nat \<rightharpoonup> anomaly list) \<Rightarrow> (nat \<times> anomaly list) list" where
  "Object_entries hourGroups =
     List.map_filter (\<lambda>hour. map_option (Pair hour) (hourGroups hour)) [0..<24]"

text \<open>The callback of the scan for the worst hour; the state is \<open>(worstHour, maxCount)\<close>.\<close>

definition worstStep :: "nat \<times> nat \<Rightarrow> nat \<times> anomaly list \<Rightarrow> nat \<times> nat" where
  "worstStep s e =
     (case s of (worstHour, maxCount) \<Rightarrow>
        case e of (hour, grp) \<Rightarrow>
          if length grp > maxCount then (hour, length grp) else (worstHour, maxCount))"

definition hourFormatted :: "env \<Rightarrow> nat \<Rightarrow> string" where
  "hourFormatted env worstHour =
     (if worstHour < 12 then numToString env (Fin (real worstHour)) @ ''am''
      else if worstHour = 12 then ''12pm''
      else numToString env (Fin (real worstHour - 12)) @ ''pm'')"

text \<open>
  The three blocks of the generator. Each takes the recommendations pushed so far; the
  number of calls of \<^verbatim>\<open>Date.now()\<close> made so far is their number.
  \<^verbatim>\<open>Array.prototype.sort\<close> is stable, so sorting by descending severity (or
  timestamp) is the stable sort on the negated key.
\<close>

definition spikeBlock :: "env \<Rightarrow> anomaly list \<Rightarrow> recommendation list \<Rightarrow> recommendation list" where
  "spikeBlock env spikeAnomalies recs =
     (if length spikeAnomalies > 0
      then
        let worstSpike = hd (sort_key (\<lambda>a. - severity a) spikeAnomalies);
            date = toLocaleDateString env (anomaly.timestamp worstSpike)
        in recs @
          [\<lparr>recommendation.id_v =
              ''spike-'' @ numToString env (Fin (of_int (dateNow env (length recs)))),
            title = ''Potential Equipment Malfunction'',
            description =
              ''Sudden energy spike of '' @ numToString env (percentageIncrease worstSpike) @
              ''% detected on '' @ date @
              ''. This pattern typically indicates HVAC system malfunction or short-cycling.'',
            action =
              ''Schedule inspection of HVAC control systems and verify thermostat settings.'',
            impact =
              ''Addressing this issue could save approximately $'' @
              numToString env (Fin (Math_round
                ((anomaly.consumption worstSpike - expected worstSpike) * 30 * 0.15))) @
              '' per month if recurring.'',
            urgency =
              (if severity worstSpike = 3 then ''High - Immediate attention recommended''
               else ''Medium - Address within 1 week''),
            anomalyType = Spike\<rparr>]
      else recs)"

definition driftBlock :: "env \<Rightarrow> anomaly list \<Rightarrow> recommendation list \<Rightarrow> recommendation list" where
  "driftBlock env driftAnomalies recs =
     (if length driftAnomalies > 0
      then
        let mostRecent = hd (sort_key (\<lambda>a. - anomaly.timestamp a) driftAnomalies);
            date = toLocaleDateString env (anomaly.timestamp mostRecent)
        in recs @
          [\<lparr>recommendation.id_v =
              ''drift-'' @ numToString env (Fin (of_int (dateNow env (length recs)))),
            title = ''Gradual Efficiency Loss Detected'',
            description =
              ''Increasing energy consumption pattern detected, culminating on '' @ date @
              ''. This typically indicates developing system inefficiency.'',
            action =
              ''Check for air leaks, inspect insulation integrity, and verify building automation schedules.'',
            impact =
              ''Addressing this trend could save approximately $'' @
              numToString env (Fin (Math_round
                ((anomaly.consumption mostRecent - expected mostRecent) * 30 * 0.15))) @
              '' per month.'',
            urgency =
              (if severity mostRecent = 2 then ''Medium - Address within 1-2 weeks''
               else ''Low - Schedule during next maintenance''),
            anomalyType = Drift\<rparr>]
      else recs)"

text \<open>
  In the schedule block \<^verbatim>\<open>hourGroups[worstHour]\<close> is read only when
  \<open>maxCount > 0\<close>, that is after the scan has set \<open>worstHour\<close> to a key of the
  object (lemma \<open>worst_is_key\<close> below), so the \<open>None\<close> branch is never taken.
\<close>

definition scheduleBlock :: "env \<Rightarrow> anomaly list \<Rightarrow> recommendation list \<Rightarrow> recommendation list" where
  "scheduleBlock env scheduleAnomalies recs =
     (if length scheduleAnomalies > 0
      then
        let hourGroups = foldl (groupStep env) Map.empty scheduleAnomalies;
            (worstHour, maxCount) = foldl worstStep (0, 0) (Object_entries hourGroups)
        in if maxCount > 0
           then
             (case hourGroups worstHour of
                None \<Rightarrow> recs
              | Some grp \<Rightarrow>
                  let averageExcess =
                        foldl (\<lambda>sum a. sum + (anomaly.consumption a - expected a)) 0 grp
                          / real (length grp)
                  in recs @
                    [\<lparr>recommendation.id_v =
                        ''schedule-'' @
                        numToString env (Fin (of_int (dateNow env (length recs)))),
                      title = ''Off-hours Energy Usage'',
                      description =
                        ''Abnormal energy consumption detected during expected low-usage hours ('' @
                        hourFormatted env worstHour @ ''). This has occurred '' @
                        numToString env (Fin (real maxCount)) @ '' times recently.'',
                      action =
                        ''Review building occupancy schedule and automation system settings. Check for unauthorized equipment operation.'',
                      impact =
                        ''Optimizing scheduling could save approximately $'' @
                        numToString env (Fin (Math_round
                          (averageExcess * real maxCount * 4 * 0.15))) @
                        '' per month.'',
                      urgency =
                        (if maxCount > 3 then ''Medium - Investigate within 2 weeks''
                         else ''Low - Investigate during next maintenance cycle''),
                      anomalyType = Schedule\<rparr>])
           else recs
      else recs)"

text \<open>
  The generator. \<open>None\<close> stands for an \<^verbatim>\<open>anomalies\<close> that is \<^verbatim>\<open>null\<close> or
  \<^verbatim>\<open>undefined\<close>. The building descriptor is a parameter, as in the source.
\<close>

definition generateRecommendations ::
  "env \<Rightarrow> anomaly list option \<Rightarrow> building \<Rightarrow> recommendation list" where
  "generateRecommendations env anomalies_opt buildingData =
     (case anomalies_opt of
        None \<Rightarrow> []
      | Some anoms \<Rightarrow>
          if length anoms = 0 then []
          else
            let spikeAnomalies = filter (\<lambda>a. type a = Spike) anoms;
                driftAnomalies = filter (\<lambda>a. type a = Drift) anoms;
                scheduleAnomalies = filter (\<lambda>a. type a = Schedule) anoms
            in scheduleBlock env scheduleAnomalies
                 (driftBlock env driftAnomalies
                   (spikeBlock env spikeAnomalies [])))"

section \<open>calculateSavings\<close>

definition ELECTRICITY_COST_PER_KWH :: real where
  "ELECTRICITY_COST_PER_KWH = 0.15"

definition CARBON_INTENSITY :: real where
  "CARBON_INTENSITY = 0.4"

definition calculateSavings :: "anomaly list option \<Rightarrow> building \<Rightarrow> savings" where
  "calculateSavings anomalies_opt buildingData =
     (case anomalies_opt of
        None \<Rightarrow> \<lparr>energy = 0, cost = 0, carbon = 0\<rparr>
      | Some anoms \<Rightarrow>
          if length anoms = 0 then \<lparr>energy = 0, cost = 0, carbon = 0\<rparr>
          else
            let totalExcessEnergy =
                  foldl (\<lambda>sum a. sum + (anomaly.consumption a - expected a)) 0 anoms;
                costSavings = totalExcessEnergy * ELECTRICITY_COST_PER_KWH;
                carbonSavings = totalExcessEnergy * CARBON_INTENSITY
            in \<lparr>energy = Math_round (totalExcessEnergy * 10) / 10,
                cost = Math_round (costSavings * 100) / 100,
                carbon = Math_round (carbonSavings * 10) / 10\<rparr>)"

section \<open>Concrete inputs\<close>

text \<open>
  A concrete host for the examples: UTC as the local time zone, a date format that
  prints the day number, and a number format that prints the integers in decimal.
\<close>

function showNat :: "nat \<Rightarrow> string" where
  "showNat n =
     (if n < 10 then [''0123456789'' ! n]
      else showNat (n div 10) @ [''0123456789'' ! (n mod 10)])"
  by pat_completeness auto
termination
  by (relation "measure id") auto

declare showNat.simps [simp del]

definition showNum :: "jsnum \<Rightarrow> string" where
  "showNum x =
     (case x of
        Fin r \<Rightarrow>
          (if r = of_int \<lfloor>r\<rfloor>
           then (if r < 0 then ''-'' @ showNat (nat (- \<lfloor>r\<rfloor>)) else showNat (nat \<lfloor>r\<rfloor>))
           else ''?'')
      | PInf \<Rightarrow> ''Infinity''
      | NInf \<Rightarrow> ''-Infinity''
      | NaN \<Rightarrow> ''NaN'')"

definition demoEnv :: env where
  "demoEnv =
     \<lparr>tzOffset = (\<lambda>t. 0),
      toLocaleDateString = (\<lambda>t. ''day '' @ showNat (nat (t div 86400000))),
      numToString = showNum,
      dateNow = (\<lambda>k. 1700000000000 + int k)\<rparr>"

text \<open>A reading taken on day \<open>day\<close> at \<open>hour\<close> o'clock (UTC).\<close>

definition mkReading :: "int \<Rightarrow> int \<Rightarrow> real \<Rightarrow> dayType \<Rightarrow> reading" where
  "mkReading day hour c dt =
     \<lparr>reading.timestamp = day * 86400000 + hour * 3600000, reading.consumption = c,
      temperature = 20, occupancy = 0, dayType = dt\<rparr>"

text \<open>Ten weekday readings at noon: 100 kWh each day but the ninth, which has 200.\<close>

definition spikeData :: "reading list" where
  "spikeData =
     [mkReading 0 12 100 Weekday, mkReading 1 12 100 Weekday, mkReading 2 12 100 Weekday,
      mkReading 3 12 100 Weekday, mkReading 4 12 100 Weekday, mkReading 5 12 100 Weekday,
      mkReading 6 12 100 Weekday, mkReading 7 12 100 Weekday, mkReading 8 12 200 Weekday,
      mkReading 9 12 100 Weekday]"




text \<open>Nine weekday readings of 0 kWh and a tenth of 10 kWh.\<close>

definition zeroData :: "reading list" where
  "zeroData =
     [mkReading 0 12 0 Weekday, mkReading 1 12 0 Weekday, mkReading 2 12 0 Weekday,
      mkReading 3 12 0 Weekday, mkReading 4 12 0 Weekday, mkReading 5 12 0 Weekday,
      mkReading 6 12 0 Weekday, mkReading 7 12 0 Weekday, mkReading 8 12 0 Weekday,
      mkReading 9 12 10 Weekday]"



definition demoBuilding :: building where
  "demoBuilding = \<lparr>building.id_v = ''b1'', name = ''Main Hall'', location = ''Campus'', area = 1200,
     energyData = [], anomalies = [], lastUpdated = ''''\<rparr>"

text \<open>
  Four anomalies as the detector emits them: a spike, a drift, and two schedule flags, the
  first at 5 o'clock on day 2 and the second at 3 o'clock on day 3.
\<close>

definition spikeAnomaly :: anomaly where
  "spikeAnomaly = \<lparr>type = Spike, timestamp = 8 * 86400000 + 12 * 3600000, consumption = 200,
     expected = 100, percentageIncrease = Fin 100, severity = 3,
     description = ''Sudden energy spike of 100% detected''\<rparr>"

definition driftAnomaly :: anomaly where
  "driftAnomaly = \<lparr>type = Drift, timestamp = 9 * 86400000 + 12 * 3600000, consumption = 240,
     expected = 50, percentageIncrease = Fin 380, severity = 2,
     description = ''Gradual efficiency loss of 380% over 5 days''\<rparr>"

definition lateFlag :: anomaly where
  "lateFlag = \<lparr>type = Schedule, timestamp = 2 * 86400000 + 5 * 3600000, consumption = 20,
     expected = 10, percentageIncrease = Fin 100, severity = 2,
     description = ''Abnormal energy use during off-hours (5:00)''\<rparr>"

definition earlyFlag :: anomaly where
  "earlyFlag = \<lparr>type = Schedule, timestamp = 3 * 86400000 + 3 * 3600000, consumption = 30,
     expected = 10, percentageIncrease = Fin 200, severity = 2,
     description = ''Abnormal energy use during off-hours (3:00)''\<rparr>"

definition mixedAnoms :: "anomaly list" where
  "mixedAnoms = [lateFlag, driftAnomaly, spikeAnomaly, earlyFlag]"


section \<open>The tie-break as the specification words it\<close>



section \<open>Notions used in the proofs\<close>


text \<open>The schedule anomalies flagged at hour \<open>h\<close>, in their order.\<close>

definition flagsAt :: "env \<Rightarrow> anomaly list \<Rightarrow> nat \<Rightarrow> anomaly list" where
  "flagsAt env sched h = filter (\<lambda>a. getHours env (anomaly.timestamp a) = h) sched"

section \<open>Verification\<close>

subsection \<open>The three passes, index by index\<close>

lemma foldl_steps:
  assumes "\<And>acc i. step acc i = acc @ step [] i"
  shows "foldl step acc is = acc @ concat (map (step []) is)"
proof (induction "is" arbitrary: acc)
  case Nil
  show ?case by simp
next
  case (Cons i "is")
  have "foldl step acc (i # is) = foldl step (step acc i) is" by simp
  also have "\<dots> = step acc i @ concat (map (step []) is)" by (rule Cons.IH)
  also have "\<dots> = acc @ step [] i @ concat (map (step []) is)"
    using assms[of acc i] by simp
  finally show ?case by simp
qed

lemma spikeStep_acc:
  "spikeStep env wk we data acc i = acc @ spikeStep env wk we data [] i"
  by (simp add: spikeStep_def Let_def)

lemma driftStep_acc:
  "driftStep env wk we data acc i = acc @ driftStep env wk we data [] i"
  by (simp add: driftStep_def Let_def)

lemma scheduleStep_acc:
  "scheduleStep env pw pe data acc i = acc @ scheduleStep env pw pe data [] i"
  by (simp add: scheduleStep_def Let_def split: option.splits)

lemma spikeStep_type: "a \<in> set (spikeStep env wk we data [] i) \<Longrightarrow> type a = Spike"
  by (auto simp: spikeStep_def Let_def split: if_splits)

lemma driftStep_type: "a \<in> set (driftStep env wk we data [] i) \<Longrightarrow> type a = Drift"
  by (auto simp: driftStep_def Let_def split: if_splits)

lemma scheduleStep_type: "a \<in> set (scheduleStep env pw pe data [] i) \<Longrightarrow> type a = Schedule"
  by (auto simp: scheduleStep_def Let_def split: if_splits option.splits)

text \<open>With seven readings or more, the detector's list is what the three loops push.\<close>

lemma detect_passes:
  assumes "7 \<le> length data"
  shows "detectAnomalies env (Some data) =
    (let wd = filter (\<lambda>e. reading.dayType e = Weekday) data;
         we = filter (\<lambda>e. reading.dayType e = Weekend) data;
         ws = calculateStats (map reading.consumption wd);
         es = calculateStats (map reading.consumption we)
     in concat (map (spikeStep env ws es data []) [1..<length data]) @
        concat (map (driftStep env ws es data []) [windowSize..<length data]) @
        concat (map (scheduleStep env (createHourlyProfile env wd)
                       (createHourlyProfile env we) data [])
          [0..<length data]))"
proof -
  have n: "\<not> length data < 7" using assms by simp
  show ?thesis
    unfolding detectAnomalies_def Let_def option.case if_not_P[OF n]
    by (simp only: foldl_steps[where step = "spikeStep _ _ _ _", OF spikeStep_acc]
        foldl_steps[where step = "driftStep _ _ _ _", OF driftStep_acc]
        foldl_steps[where step = "scheduleStep _ _ _ _", OF scheduleStep_acc]
        append_Nil append_assoc)
qed

lemma filter_concat_all:
  assumes "\<And>xs x. xs \<in> set xss \<Longrightarrow> x \<in> set xs \<Longrightarrow> P x"
  shows "filter P (concat xss) = concat xss"
  unfolding filter_id_conv using assms by auto

lemma filter_concat_none:
  assumes "\<And>xs x. xs \<in> set xss \<Longrightarrow> x \<in> set xs \<Longrightarrow> \<not> P x"
  shows "filter P (concat xss) = []"
  unfolding filter_empty_conv using assms by auto

text \<open>
  Where the divisor is not zero the percentage is the real quotient, and the rounding to
  one decimal of a finite percentage is \<open>\<lfloor>p * 10 + 1/2\<rfloor> / 10\<close>.
\<close>

lemma pct_finite:
  "prev \<noteq> 0 \<Longrightarrow>
   js_mul (js_div (Fin (cur - prev)) (Fin prev)) (Fin 100) = Fin ((cur - prev) / prev * 100)"
  by simp

lemma round1_finite:
  "js_div (js_round (js_mul (Fin p) (Fin 10))) (Fin 10) = Fin (of_int \<lfloor>p * 10 + 1 / 2\<rfloor> / 10)"
  by (simp add: Math_round_def)



subsection \<open>C1: the spike pass\<close>



subsection \<open>C7: fewer than seven readings\<close>

text \<open>
  C7. For every reading sequence of length strictly less than 7 the detector returns the
  empty anomaly list: the guard is the first statement of the function, before any
  baseline is computed and before any pass runs.
\<close>

theorem C7_short_history_empty:
  "length data < 7 \<Longrightarrow> detectAnomalies env (Some data) = []"
  by (simp add: detectAnomalies_def)

text \<open>The last six readings of \<open>spikeData\<close>, the jump among them.\<close>

theorem C7_short_history_empty_witness:
  "length (drop 4 spikeData) < 7 \<and>
   detectAnomalies demoEnv (Some (drop 4 spikeData)) = []"
proof -
  have len: "length (drop 4 spikeData) < 7" by (simp add: spikeData_def)
  show ?thesis using len C7_short_history_empty[OF len, of demoEnv] by simp
qed

subsection \<open>C2: the drift pass\<close>










subsection \<open>C3: the schedule pass\<close>

text \<open>
  What \<open>createHourlyProfile\<close> builds: 24 entries, the entry of hour \<open>h\<close> holding the
  samples of that hour, their number, and their mean and standard deviation.
\<close>

lemma getHours_lt: "getHours env t < 24"
  by (simp add: getHours_def nat_less_iff)














subsection \<open>C6: a previous consumption of zero\<close>

lemma detect_spikes:
  assumes "7 \<le> length data"
  shows "filter (\<lambda>a. type a = Spike) (detectAnomalies env (Some data)) =
    concat (map (spikeStep env
       (calculateStats (map reading.consumption (filter (\<lambda>e. reading.dayType e = Weekday) data)))
       (calculateStats (map reading.consumption (filter (\<lambda>e. reading.dayType e = Weekend) data)))
       data []) [1..<length data])"
proof -
  let ?S = "\<lambda>a. type a = Spike"
  have d: "filter ?S (concat (map (driftStep env ws es data []) is)) = []" for ws es "is"
    by (rule filter_concat_none) (auto dest: driftStep_type)
  have s: "filter ?S (concat (map (scheduleStep env pw pe data []) is)) = []" for pw pe "is"
    by (rule filter_concat_none) (auto dest: scheduleStep_type)
  have k: "filter ?S (concat (map (spikeStep env ws es data []) is)) =
           concat (map (spikeStep env ws es data []) is)" for ws es "is"
    by (rule filter_concat_all) (auto dest: spikeStep_type)
  show ?thesis
    unfolding detect_passes[OF assms] Let_def filter_append d s k append_Nil2 ..
qed

text \<open>
  C6. There is a sequence of at least 7 readings with a previous consumption of zero on
  which the spike pass divides by that zero with no guard. On \<open>zeroData\<close> the
  percentage of the last reading over its predecessor 0 is \<open>Infinity\<close> (unbounded)
  and the percentage of a 0 over a 0 is \<open>NaN\<close> (undefined). The detector raises no
  error and does not skip the point: it returns a spike anomaly whose percentageIncrease
  is \<open>Infinity\<close>.
\<close>

theorem C6_zero_previous_consumption:
  "7 \<le> length zeroData \<and>
   reading.consumption (zeroData ! 8) = 0 \<and>
   pctIncrease (reading.consumption (zeroData ! 9)) (reading.consumption (zeroData ! 8)) = PInf \<and>
   pctIncrease (reading.consumption (zeroData ! 8)) (reading.consumption (zeroData ! 7)) = NaN \<and>
   filter (\<lambda>a. type a = Spike) (detectAnomalies demoEnv (Some zeroData)) =
     [\<lparr>type = Spike, timestamp = 9 * 86400000 + 12 * 3600000, consumption = 10, expected = 0,
       percentageIncrease = PInf, severity = 3,
       description = ''Sudden energy spike of Infinity% detected''\<rparr>]"
proof -
  have len: "7 \<le> length zeroData" by (simp add: zeroData_def)
  have st: "calculateStats (map reading.consumption (filter (\<lambda>e. reading.dayType e = Weekday) zeroData)) =
      \<lparr>stats.mean = 1, stats.stdDev = 3, min_v = Fin 0, max_v = Fin 10\<rparr>"
    by (simp add: zeroData_def mkReading_def calculateStats_def)
  have "filter (\<lambda>a. type a = Spike) (detectAnomalies demoEnv (Some zeroData)) =
     [\<lparr>type = Spike, timestamp = 9 * 86400000 + 12 * 3600000, consumption = 10, expected = 0,
       percentageIncrease = PInf, severity = 3,
       description = ''Sudden energy spike of Infinity% detected''\<rparr>]"
    unfolding detect_spikes[OF len] st
    by (simp add: zeroData_def mkReading_def spikeStep_def pctIncrease_def demoEnv_def showNum_def)
  then show ?thesis
    using len by (simp add: zeroData_def mkReading_def pctIncrease_def)
qed

subsection \<open>C8: calculateStats\<close>






subsection \<open>C5: calculateSavings\<close>


subsection \<open>The generator: grouping by hour and the scan for the worst hour\<close>

text \<open>
  \<open>hourGroups\<close> has a key for each hour with a flag and holds the flags of that hour.
  The scan over \<open>Object.entries\<close> visits the hours in ascending order and replaces
  the worst hour only on a strictly greater count.
\<close>

lemma group_fold:
  "foldl (groupStep env) m sched h =
     (case m h of
        None \<Rightarrow> (if flagsAt env sched h = [] then None else Some (flagsAt env sched h))
      | Some g \<Rightarrow> Some (g @ flagsAt env sched h))"
proof (induction sched arbitrary: m)
  case Nil
  show ?case by (simp add: flagsAt_def split: option.splits)
next
  case (Cons a sched)
  show ?case
    unfolding foldl_Cons Cons.IH
    by (simp add: groupStep_def flagsAt_def Let_def split: option.splits)
qed

lemma hourGroups_eq:
  "foldl (groupStep env) Map.empty sched h =
     (if flagsAt env sched h = [] then None else Some (flagsAt env sched h))"
  by (simp add: group_fold)

lemma scan_entries:
  "foldl worstStep s (List.map_filter (\<lambda>h. map_option (Pair h)
       (if g h = [] then None else Some (g h))) hs) =
   foldl (\<lambda>s h. if length (g h) > snd s then (h, length (g h)) else s) s hs"
proof (induction hs arbitrary: s)
  case Nil
  show ?case by (simp add: List.map_filter_simps)
next
  case (Cons h hs)
  have st: "worstStep s (h, g h) = (if length (g h) > snd s then (h, length (g h)) else s)"
    by (cases s) (simp add: worstStep_def)
  show ?case
  proof (cases "g h = []")
    case True
    then show ?thesis by (simp add: List.map_filter_simps Cons.IH)
  next
    case False
    then show ?thesis by (simp add: List.map_filter_simps Cons.IH st)
  qed
qed

lemma scan_upt:
  fixes cnt :: "nat \<Rightarrow> nat"
  assumes "foldl (\<lambda>s h. if cnt h > snd s then (h, cnt h) else s) (0, 0) [0..<n] = (w, m)"
  shows "(\<forall>k<n. cnt k \<le> m) \<and>
         (if m = 0 then w = 0 else w < n \<and> cnt w = m \<and> (\<forall>k<w. cnt k < m))"
  using assms
proof (induction n arbitrary: w m)
  case 0
  then show ?case by simp
next
  case (Suc n)
  obtain w' m' where r: "foldl (\<lambda>s h. if cnt h > snd s then (h, cnt h) else s) (0, 0) [0..<n] = (w', m')"
    by (cases "foldl (\<lambda>s h. if cnt h > snd s then (h, cnt h) else s) (0, 0) [0..<n]") auto
  note ih = Suc.IH[OF r]
  have step: "(w, m) = (if cnt n > m' then (n, cnt n) else (w', m'))"
    using Suc.prems r by simp
  have bound: "\<forall>k<n. cnt k \<le> m'" using ih by simp
  show ?case
  proof (cases "cnt n > m'")
    case True
    then have wm: "w = n" "m = cnt n" using step by simp_all
    have a: "cnt k \<le> m" if "k < Suc n" for k
    proof (cases "k = n")
      case True
      then show ?thesis using wm by simp
    next
      case False
      then have "k < n" using that by simp
      then have "cnt k \<le> m'" using bound by simp
      then show ?thesis using True wm by simp
    qed
    have b: "cnt k < m" if "k < w" for k
    proof -
      have "cnt k \<le> m'" using that wm bound by simp
      then show ?thesis using True wm by simp
    qed
    have c: "m \<noteq> 0" using True wm by simp
    show ?thesis using a b c wm by simp
  next
    case False
    then have wm: "w = w'" "m = m'" using step by simp_all
    have a: "cnt k \<le> m" if "k < Suc n" for k
    proof (cases "k = n")
      case True
      then show ?thesis using False wm by simp
    next
      case nk: False
      then have "k < n" using that by simp
      then show ?thesis using bound wm by simp
    qed
    have b: "if m = 0 then w = 0 else w < Suc n \<and> cnt w = m \<and> (\<forall>k<w. cnt k < m)"
      using ih wm by (simp split: if_splits)
    show ?thesis using a b by simp
  qed
qed

lemma worst_scan:
  assumes "foldl worstStep (0, 0) (Object_entries (foldl (groupStep env) Map.empty sched)) = (w, m)"
  shows "(\<forall>k<24. length (flagsAt env sched k) \<le> m) \<and>
         (if m = 0 then w = 0
          else w < 24 \<and> length (flagsAt env sched w) = m \<and>
               (\<forall>k<w. length (flagsAt env sched k) < m))"
proof -
  have "foldl (\<lambda>s h. if length (flagsAt env sched h) > snd s
                        then (h, length (flagsAt env sched h)) else s) (0, 0) [0..<24] = (w, m)"
    using assms unfolding Object_entries_def hourGroups_eq scan_entries .
  then show ?thesis by (rule scan_upt)
qed

lemma worst_is_key:
  assumes "sched \<noteq> []"
    and "foldl worstStep (0, 0) (Object_entries (foldl (groupStep env) Map.empty sched)) = (w, m)"
  shows "0 < m" and "foldl (groupStep env) Map.empty sched w = Some (flagsAt env sched w)"
    and "length (flagsAt env sched w) = m"
proof -
  note ws = worst_scan[OF assms(2)]
  obtain a rest where s: "sched = a # rest" using assms(1) by (cases sched) auto
  let ?h = "getHours env (anomaly.timestamp a)"
  have "0 < length (flagsAt env sched ?h)" by (simp add: s flagsAt_def)
  moreover have "length (flagsAt env sched ?h) \<le> m" using ws getHours_lt by blast
  ultimately show m: "0 < m" by (rule less_le_trans)
  then show l: "length (flagsAt env sched w) = m" using ws by simp
  then have "flagsAt env sched w \<noteq> []" using m by auto
  then show "foldl (groupStep env) Map.empty sched w = Some (flagsAt env sched w)"
    by (simp add: hourGroups_eq)
qed

lemma spikeBlock_types:
  "map anomalyType (spikeBlock env sp recs) =
   map anomalyType recs @ (if sp = [] then [] else [Spike])"
  by (simp add: spikeBlock_def Let_def)

lemma driftBlock_types:
  "map anomalyType (driftBlock env dr recs) =
   map anomalyType recs @ (if dr = [] then [] else [Drift])"
  by (simp add: driftBlock_def Let_def)

lemma scheduleBlock_eq:
  assumes "sc \<noteq> []"
    and "foldl worstStep (0, 0) (Object_entries (foldl (groupStep env) Map.empty sc)) = (w, m)"
  shows "scheduleBlock env sc recs = recs @
    [\<lparr>recommendation.id_v =
        ''schedule-'' @ numToString env (Fin (of_int (dateNow env (length recs)))),
      title = ''Off-hours Energy Usage'',
      description =
        ''Abnormal energy consumption detected during expected low-usage hours ('' @
        hourFormatted env w @ ''). This has occurred '' @
        numToString env (Fin (real m)) @ '' times recently.'',
      action =
        ''Review building occupancy schedule and automation system settings. Check for unauthorized equipment operation.'',
      impact =
        ''Optimizing scheduling could save approximately $'' @
        numToString env (Fin (Math_round
          (foldl (\<lambda>sum a. sum + (anomaly.consumption a - expected a)) 0 (flagsAt env sc w)
             / real (length (flagsAt env sc w)) * real m * 4 * 0.15))) @
        '' per month.'',
      urgency =
        (if m > 3 then ''Medium - Investigate within 2 weeks''
         else ''Low - Investigate during next maintenance cycle''),
      anomalyType = Schedule\<rparr>]"
proof -
  note k = worst_is_key[OF assms]
  have l: "length sc > 0" using assms(1) by simp
  show ?thesis
    unfolding scheduleBlock_def Let_def assms(2) prod.case k(2) option.case
    using l k(1) by simp
qed

lemma scheduleBlock_types:
  "map anomalyType (scheduleBlock env sc recs) =
   map anomalyType recs @ (if sc = [] then [] else [Schedule])"
proof (cases "sc = []")
  case True
  then show ?thesis by (simp add: scheduleBlock_def)
next
  case False
  obtain w m where wm: "foldl worstStep (0, 0) (Object_entries (foldl (groupStep env) Map.empty sc)) = (w, m)"
    by (cases "foldl worstStep (0, 0) (Object_entries (foldl (groupStep env) Map.empty sc))") auto
  show ?thesis unfolding scheduleBlock_eq[OF False wm] using False by simp
qed

lemma recommendation_types:
  "map anomalyType (generateRecommendations env (Some anoms) b) =
   filter (\<lambda>t. t \<in> type ` set anoms) [Spike, Drift, Schedule]"
proof -
  have e: "filter (\<lambda>a. type a = t) anoms = [] \<longleftrightarrow> t \<notin> type ` set anoms" for t
    by (auto simp: filter_empty_conv)
  show ?thesis
  proof (cases "anoms = []")
    case True
    then show ?thesis by (simp add: generateRecommendations_def)
  next
    case False
    then show ?thesis
      by (simp add: generateRecommendations_def Let_def scheduleBlock_types driftBlock_types
          spikeBlock_types e)
  qed
qed

subsection \<open>C10: the order of the recommendations\<close>

text \<open>
  C10. For every anomaly list, the types of the recommendations returned are the types
  that occur in the input, each once, in the order spike, drift, schedule. So there are
  at most 3 recommendations, and the list of their types is the same for every list with
  the same anomalies, whatever their order.
\<close>

theorem C10_recommendation_order:
  "map anomalyType (generateRecommendations env (Some anoms) b) =
     filter (\<lambda>t. t \<in> type ` set anoms) [Spike, Drift, Schedule] \<and>
   length (generateRecommendations env (Some anoms) b) \<le> 3 \<and>
   (\<forall>anoms'. set anoms' = set anoms \<longrightarrow>
      map anomalyType (generateRecommendations env (Some anoms') b) =
      map anomalyType (generateRecommendations env (Some anoms) b))"
proof (intro conjI allI impI)
  show "map anomalyType (generateRecommendations env (Some anoms) b) =
     filter (\<lambda>t. t \<in> type ` set anoms) [Spike, Drift, Schedule]"
    by (rule recommendation_types)
next
  have "length (map anomalyType (generateRecommendations env (Some anoms) b)) \<le>
        length [Spike, Drift, Schedule]"
    unfolding recommendation_types by (rule length_filter_le)
  then show "length (generateRecommendations env (Some anoms) b) \<le> 3" by simp
next
  fix anoms' :: "anomaly list"
  assume "set anoms' = set anoms"
  then show "map anomalyType (generateRecommendations env (Some anoms') b) =
      map anomalyType (generateRecommendations env (Some anoms) b)"
    by (simp only: recommendation_types)
qed

theorem C10_recommendation_order_witness:
  "set (rev mixedAnoms) = set mixedAnoms \<and>
   map anomalyType (generateRecommendations demoEnv (Some mixedAnoms) demoBuilding) =
     [Spike, Drift, Schedule] \<and>
   map anomalyType (generateRecommendations demoEnv (Some (rev mixedAnoms)) demoBuilding) =
     [Spike, Drift, Schedule] \<and>
   map anomalyType (generateRecommendations demoEnv (Some [driftAnomaly]) demoBuilding) = [Drift]"
proof -
  have s: "set (rev mixedAnoms) = set mixedAnoms" by simp
  have t: "type ` set mixedAnoms = {Spike, Drift, Schedule}"
    by (auto simp: mixedAnoms_def lateFlag_def earlyFlag_def spikeAnomaly_def driftAnomaly_def)
  note c = C10_recommendation_order[of demoEnv mixedAnoms demoBuilding]
  have a: "map anomalyType (generateRecommendations demoEnv (Some mixedAnoms) demoBuilding) =
     [Spike, Drift, Schedule]"
    using c t by simp
  have b: "map anomalyType (generateRecommendations demoEnv (Some (rev mixedAnoms)) demoBuilding) =
     [Spike, Drift, Schedule]"
    using c s a by simp
  have d: "map anomalyType (generateRecommendations demoEnv (Some [driftAnomaly]) demoBuilding) = [Drift]"
    using C10_recommendation_order[of demoEnv "[driftAnomaly]" demoBuilding]
    by (simp add: driftAnomaly_def)
  show ?thesis using s a b d by blast
qed

subsection \<open>C9: the building descriptor is not read\<close>

lemma env_clock [simp]:
  "getHours (env\<lparr>dateNow := c\<rparr>) = getHours env"
  "groupStep (env\<lparr>dateNow := c\<rparr>) = groupStep env"
  "hourFormatted (env\<lparr>dateNow := c\<rparr>) = hourFormatted env"
  by (auto simp: getHours_def groupStep_def hourFormatted_def fun_eq_iff)

lemma spikeBlock_ids:
  assumes "map (\<lambda>r. r\<lparr>recommendation.id_v := []\<rparr>) r1 = map (\<lambda>r. r\<lparr>recommendation.id_v := []\<rparr>) r2"
  shows "map (\<lambda>r. r\<lparr>recommendation.id_v := []\<rparr>) (spikeBlock (env\<lparr>dateNow := c1\<rparr>) sp r1) =
         map (\<lambda>r. r\<lparr>recommendation.id_v := []\<rparr>) (spikeBlock (env\<lparr>dateNow := c2\<rparr>) sp r2)"
  using assms by (simp add: spikeBlock_def Let_def)

lemma driftBlock_ids:
  assumes "map (\<lambda>r. r\<lparr>recommendation.id_v := []\<rparr>) r1 = map (\<lambda>r. r\<lparr>recommendation.id_v := []\<rparr>) r2"
  shows "map (\<lambda>r. r\<lparr>recommendation.id_v := []\<rparr>) (driftBlock (env\<lparr>dateNow := c1\<rparr>) dr r1) =
         map (\<lambda>r. r\<lparr>recommendation.id_v := []\<rparr>) (driftBlock (env\<lparr>dateNow := c2\<rparr>) dr r2)"
  using assms by (simp add: driftBlock_def Let_def)

lemma scheduleBlock_ids:
  assumes "map (\<lambda>r. r\<lparr>recommendation.id_v := []\<rparr>) r1 = map (\<lambda>r. r\<lparr>recommendation.id_v := []\<rparr>) r2"
  shows "map (\<lambda>r. r\<lparr>recommendation.id_v := []\<rparr>) (scheduleBlock (env\<lparr>dateNow := c1\<rparr>) sc r1) =
         map (\<lambda>r. r\<lparr>recommendation.id_v := []\<rparr>) (scheduleBlock (env\<lparr>dateNow := c2\<rparr>) sc r2)"
  using assms by (simp add: scheduleBlock_def Let_def split: prod.splits option.splits)

text \<open>
  C9. For every anomaly list and every two building descriptors: two runs of the
  generator, each with its own clock and its own descriptor, return recommendations that
  agree in every field but the identifier; with the same clock they return the same list;
  and the savings are the same. Neither function reads its \<open>buildingData\<close> argument.
\<close>

theorem C9_building_independence:
  "map (\<lambda>r. r\<lparr>recommendation.id_v := []\<rparr>)
     (generateRecommendations (env\<lparr>dateNow := clock1\<rparr>) (Some anoms) b1) =
   map (\<lambda>r. r\<lparr>recommendation.id_v := []\<rparr>)
     (generateRecommendations (env\<lparr>dateNow := clock2\<rparr>) (Some anoms) b2) \<and>
   generateRecommendations env (Some anoms) b1 = generateRecommendations env (Some anoms) b2 \<and>
   calculateSavings (Some anoms) b1 = calculateSavings (Some anoms) b2"
proof (intro conjI)
  show "map (\<lambda>r. r\<lparr>recommendation.id_v := []\<rparr>)
     (generateRecommendations (env\<lparr>dateNow := clock1\<rparr>) (Some anoms) b1) =
   map (\<lambda>r. r\<lparr>recommendation.id_v := []\<rparr>)
     (generateRecommendations (env\<lparr>dateNow := clock2\<rparr>) (Some anoms) b2)"
    unfolding generateRecommendations_def Let_def option.case
    by (cases "length anoms = 0")
       (simp_all only: if_True if_False refl scheduleBlock_ids[OF driftBlock_ids[OF spikeBlock_ids[OF refl]]])
next
  show "generateRecommendations env (Some anoms) b1 = generateRecommendations env (Some anoms) b2"
    by (simp add: generateRecommendations_def)
next
  show "calculateSavings (Some anoms) b1 = calculateSavings (Some anoms) b2"
    by (simp add: calculateSavings_def)
qed

subsection \<open>C4: the schedule recommendation\<close>







end
